theory Spec2Isabelle
  imports Main "HOL-Library.Word" "HOL-Library.Signed_Division"
begin

unbundle bit_operations_syntax

section \<open>Interface types of the light service\<close>

text \<open>
  Modelled from the spec: the enum \<open>Type\<close> is declared by the light interface the
  service implements (Light.h and the interface's generated headers), not under src/.
  The spec names the four values the dispatch table holds (Backlight, Battery,
  Notifications, Attention); \<open>KEYBOARD\<close>, \<open>BUTTONS\<close>, \<open>BLUETOOTH\<close> and \<open>WIFI\<close> are the
  interface's remaining values, the ones "outside the supported set".
  \<open>Type_value\<close> is the enumerator's number, the order \<open>std::map\<close> keeps its keys in.
\<close>

datatype Type =
  BACKLIGHT | KEYBOARD | BUTTONS | BATTERY | NOTIFICATIONS | ATTENTION | BLUETOOTH | WIFI

fun Type_value :: "Type \<Rightarrow> nat" where
  "Type_value BACKLIGHT = 0"
| "Type_value KEYBOARD = 1"
| "Type_value BUTTONS = 2"
| "Type_value BATTERY = 3"
| "Type_value NOTIFICATIONS = 4"
| "Type_value ATTENTION = 5"
| "Type_value BLUETOOTH = 6"
| "Type_value WIFI = 7"

text \<open>
  Modelled from the spec: \<open>Flash\<close>, \<open>Brightness\<close>, \<open>Status\<close> and \<open>LightState\<close> are
  declared by the same interface, not under src/. The spec gives the flash modes
  None/Timed/Hardware, the two results Success and "light type not supported", and the
  fields of a request: a 32-bit packed colour, the flash mode, the two durations in
  milliseconds (\<open>int32_t\<close>: Light.cpp copies them into \<open>int32_t\<close> variables) and a
  brightness mode the service ignores. Signed 32-bit values are kept as their bit
  pattern and read with \<open>sint\<close>.
\<close>

datatype Flash = NONE | TIMED | HARDWARE

datatype Brightness = USER | SENSOR | LOW_PERSISTENCE

datatype Status = SUCCESS | LIGHT_NOT_SUPPORTED

record LightState =
  color :: "32 word"
  flashMode :: Flash
  flashOnMs :: "32 word"
  flashOffMs :: "32 word"
  brightnessMode :: Brightness

section \<open>Attribute paths (Light.cpp, lines 31-42)\<close>

definition LEDS :: string where "LEDS = ''/sys/class/leds/''"
definition LCD_LED :: string where "LCD_LED = ''/sys/class/backlight/panel0-backlight/''"

definition BLUE_LED :: string where "BLUE_LED = LEDS @ ''blue_moto/''"
definition CHARGING_LED :: string where "CHARGING_LED = LEDS @ ''charging/''"
definition GREEN_LED :: string where "GREEN_LED = LEDS @ ''green_moto/''"
definition RED_LED :: string where "RED_LED = LEDS @ ''red_moto/''"

definition BREATH :: string where "BREATH = ''breath''"
definition BREATH_PATTERN :: string where "BREATH_PATTERN = ''breath_pattern''"
definition BRIGHTNESS :: string where "BRIGHTNESS = ''brightness''"
definition MAX_BRIGHTNESS :: string where "MAX_BRIGHTNESS = ''max_brightness''"

section \<open>Effects: attribute I/O, the debug log, the lock\<close>

text \<open>
  \<open>set(path, value)\<close> opens the file and streams the value into it. The template is used
  at \<open>int\<close> and at \<open>std::string\<close>; the event keeps the value with its type
  (\<open>IntVal\<close> is printed in signed decimal by the stream). The call on line 97 names the
  path alone: \<open>NoValue\<close> records that no value was handed over.
  A handler is the list of events it performs, in program order.
\<close>

datatype payload = IntVal "32 word" | StrVal string | NoValue

datatype event =
  AttrWrite string payload
  | DebugLog string
  | LockAcquire
  | LockRelease

text \<open>
  \<open>get(path, def)\<close> at \<open>int\<close>: the environment says what parsing an \<open>int\<close> from each
  attribute yields, \<open>None\<close> when the stream fails (missing file, no number, a number
  outside \<open>int\<close>).
\<close>

type_synonym sysfs = "string \<Rightarrow> 32 word option"

definition get_attr :: "sysfs \<Rightarrow> string \<Rightarrow> 32 word \<Rightarrow> 32 word" where
  "get_attr fs path def = (case fs path of None \<Rightarrow> def | Some result \<Rightarrow> result)"

fun writes :: "event list \<Rightarrow> (string \<times> payload) list" where
  "writes [] = []"
| "writes (AttrWrite p v # es) = (p, v) # writes es"
| "writes (e # es) = writes es"

section \<open>Decimal output\<close>

definition digit_char :: "nat \<Rightarrow> char" where
  "digit_char d = ''0123456789'' ! d"

function dec_nat :: "nat \<Rightarrow> string" where
  "dec_nat n = (if n < 10 then [digit_char n] else dec_nat (n div 10) @ [digit_char (n mod 10)])"
  by pat_completeness auto
termination
  by (relation "measure id") auto

declare dec_nat.simps [simp del]

text \<open>\<open>%d\<close> and \<open>operator<<\<close> on an \<open>int\<close>: the two's complement reading in decimal.\<close>

definition fmt_d :: "32 word \<Rightarrow> string" where
  "fmt_d w = (if sint w < 0 then CHR ''-'' # dec_nat (nat (- sint w)) else dec_nat (nat (sint w)))"

text \<open>\<open>snprintf(buffer, size, ...)\<close> keeps at most \<open>size - 1\<close> characters (and the terminator) of the output.\<close>

definition snprintf :: "nat \<Rightarrow> string \<Rightarrow> string" where
  "snprintf n out = take (n - 1) out"

definition breath_format :: "32 word \<Rightarrow> 32 word \<Rightarrow> string" where
  "breath_format pauseHi pauseLo =
     fmt_d pauseLo @ '' '' @ fmt_d pauseHi @ '' '' @ fmt_d pauseLo @ '' '' @ fmt_d pauseHi
       @ [CHR 0x0A]"

definition getBreathPatternValue :: "32 word \<Rightarrow> 32 word \<Rightarrow> string" where
  "getBreathPatternValue pauseHi pauseLo = snprintf 40 (breath_format pauseHi pauseLo)"

section \<open>Brightness computation and the handlers\<close>

definition kDefaultMaxBrightness :: "32 word" where
  "kDefaultMaxBrightness = 255"

definition rgbToBrightness :: "LightState \<Rightarrow> 32 word" where
  "rgbToBrightness state =
     (let color = color state AND 0x00ffffff
      in drop_bit 8 ((77 * (drop_bit 16 color AND 0xff)) + (150 * (drop_bit 8 color AND 0xff))
            + (29 * (color AND 0xff))))"

text \<open>
  \<open>int\<close> arithmetic of \<open>handleBacklight\<close>: the product wraps in two's complement (what
  the compiled code does; the language leaves the overflow undefined), the division
  truncates towards zero.
\<close>

definition int_div :: "32 word \<Rightarrow> 32 word \<Rightarrow> 32 word" where
  "int_div a b = word_of_int (sint a sdiv sint b)"

definition handleBacklight :: "sysfs \<Rightarrow> LightState \<Rightarrow> event list" where
  "handleBacklight fs state =
     (let maxBrightness = get_attr fs (LCD_LED @ MAX_BRIGHTNESS) (- 1);
          maxBrightness = (if maxBrightness <s 0 then kDefaultMaxBrightness else maxBrightness);
          sentBrightness = rgbToBrightness state;
          brightness = int_div (sentBrightness * maxBrightness) kDefaultMaxBrightness
      in [DebugLog (''Writing backlight brightness '' @ fmt_d brightness
                     @ '' (orig '' @ fmt_d sentBrightness @ '')''),
          AttrWrite (LCD_LED @ BRIGHTNESS) NoValue])"

text \<open>
  Modelled from the spec: \<open>handleBattery\<close> calls \<open>Light::rgbToBrightness\<close>, a member of
  the class \<open>Light\<close> whose declaration (Light.h) and definition are not under src/.
  The spec says of the battery handler that it "computes the same luma value from the
  color" as the backlight handler, that is, the value of \<open>rgbToBrightness\<close>.
\<close>

definition Light_rgbToBrightness :: "LightState \<Rightarrow> 32 word" where
  "Light_rgbToBrightness state = rgbToBrightness state"

definition handleBattery :: "sysfs \<Rightarrow> LightState \<Rightarrow> event list" where
  "handleBattery fs state =
     (let brightness = Light_rgbToBrightness state
      in [AttrWrite (RED_LED @ BREATH) (IntVal (if brightness = 0 then 0 else 1)),
          AttrWrite (RED_LED @ BRIGHTNESS) (IntVal brightness),
          AttrWrite (GREEN_LED @ BREATH) (IntVal (if brightness = 0 then 0 else 1)),
          AttrWrite (GREEN_LED @ BRIGHTNESS) (IntVal brightness),
          AttrWrite (BLUE_LED @ BREATH) (IntVal (if brightness = 0 then 0 else 1)),
          AttrWrite (BLUE_LED @ BRIGHTNESS) (IntVal brightness)])"

text \<open>The channel values of \<open>handleNotification\<close> after the alpha scaling (lines 119-132).\<close>

definition scaledChannels :: "LightState \<Rightarrow> 32 word \<times> 32 word \<times> 32 word" where
  "scaledChannels state =
     (let redBrightness = drop_bit 16 (color state) AND 0xFF;
          greenBrightness = drop_bit 8 (color state) AND 0xFF;
          blueBrightness = color state AND 0xFF;
          brightness = drop_bit 24 (color state) AND 0xFF
      in if brightness \<noteq> 0xFF
         then ((redBrightness * brightness) div 0xFF,
               (greenBrightness * brightness) div 0xFF,
               (blueBrightness * brightness) div 0xFF)
         else (redBrightness, greenBrightness, blueBrightness))"

text \<open>Lines 134-140: breathing is disabled on the three channels first.\<close>

definition disableBreathing :: "event list" where
  "disableBreathing =
     [AttrWrite (RED_LED @ BREATH) (IntVal 0),
      AttrWrite (RED_LED @ BRIGHTNESS) (IntVal 0),
      AttrWrite (GREEN_LED @ BREATH) (IntVal 0),
      AttrWrite (GREEN_LED @ BRIGHTNESS) (IntVal 0),
      AttrWrite (BLUE_LED @ BREATH) (IntVal 0),
      AttrWrite (BLUE_LED @ BRIGHTNESS) (IntVal 0)]"

definition handleNotification :: "sysfs \<Rightarrow> LightState \<Rightarrow> event list" where
  "handleNotification fs state =
     (case scaledChannels state of (redBrightness, greenBrightness, blueBrightness) \<Rightarrow>
        disableBreathing @
        (if flashMode state = TIMED then
           (let pauseHi = flashOnMs state;
                pauseLo = flashOffMs state;
                breath = (if 0 <s pauseHi \<and> 0 <s pauseLo then (1 :: 32 word) else 0)
            in if breath \<noteq> 0 then
                 (if 0 < redBrightness \<or> 0 < greenBrightness \<or> 0 < blueBrightness then
                    [AttrWrite (RED_LED @ BREATH_PATTERN)
                       (StrVal (getBreathPatternValue pauseHi pauseLo)),
                     AttrWrite (RED_LED @ BREATH) (IntVal 1),
                     AttrWrite (RED_LED @ BRIGHTNESS) (IntVal kDefaultMaxBrightness),
                     AttrWrite (GREEN_LED @ BREATH_PATTERN)
                       (StrVal (getBreathPatternValue pauseHi pauseLo)),
                     AttrWrite (GREEN_LED @ BREATH) (IntVal 1),
                     AttrWrite (GREEN_LED @ BRIGHTNESS) (IntVal kDefaultMaxBrightness),
                     AttrWrite (BLUE_LED @ BREATH_PATTERN)
                       (StrVal (getBreathPatternValue pauseHi pauseLo)),
                     AttrWrite (BLUE_LED @ BREATH) (IntVal 1),
                     AttrWrite (BLUE_LED @ BRIGHTNESS) (IntVal kDefaultMaxBrightness)]
                  else [])
               else [])
         else
           (if 0 < redBrightness \<or> 0 < greenBrightness \<or> 0 < blueBrightness then
              [AttrWrite (RED_LED @ BRIGHTNESS) (IntVal kDefaultMaxBrightness),
               AttrWrite (GREEN_LED @ BRIGHTNESS) (IntVal kDefaultMaxBrightness),
               AttrWrite (BLUE_LED @ BRIGHTNESS) (IntVal kDefaultMaxBrightness)]
            else
              [AttrWrite (RED_LED @ BRIGHTNESS) (IntVal 0),
               AttrWrite (GREEN_LED @ BRIGHTNESS) (IntVal 0),
               AttrWrite (BLUE_LED @ BRIGHTNESS) (IntVal 0)])))"

section \<open>The dispatch table and the service's two calls\<close>

text \<open>
  \<open>std::map\<close> keeps its entries in the order of their keys and one entry per key; the
  constructor from an initializer list inserts the pairs one by one, a pair whose key
  is already there being dropped.
\<close>

type_synonym handler = "sysfs \<Rightarrow> LightState \<Rightarrow> event list"

fun map_insert :: "Type \<times> 'v \<Rightarrow> (Type \<times> 'v) list \<Rightarrow> (Type \<times> 'v) list" where
  "map_insert kv [] = [kv]"
| "map_insert kv (e # es) =
     (if Type_value (fst kv) < Type_value (fst e) then kv # e # es
      else if Type_value (fst kv) = Type_value (fst e) then e # es
      else e # map_insert kv es)"

definition std_map :: "(Type \<times> 'v) list \<Rightarrow> (Type \<times> 'v) list" where
  "std_map init = foldl (\<lambda>m kv. map_insert kv m) [] init"

fun map_find :: "(Type \<times> 'v) list \<Rightarrow> Type \<Rightarrow> 'v option" where
  "map_find [] k = None"
| "map_find (e # es) k = (if fst e = k then Some (snd e) else map_find es k)"

definition lights :: "(Type \<times> handler) list" where
  "lights = std_map
     [(BACKLIGHT, handleBacklight),
      (BATTERY, handleBattery),
      (NOTIFICATIONS, handleNotification),
      (ATTENTION, handleNotification)]"

definition setLight :: "sysfs \<Rightarrow> Type \<Rightarrow> LightState \<Rightarrow> Status \<times> event list" where
  "setLight fs type state =
     (case map_find lights type of
        None \<Rightarrow> (LIGHT_NOT_SUPPORTED, [])
      | Some h \<Rightarrow> (SUCCESS, [LockAcquire] @ h fs state @ [LockRelease]))"

text \<open>\<open>getSupportedTypes\<close> collects the keys of the table and hands them to the callback.\<close>

definition getSupportedTypes :: "(Type list \<Rightarrow> 'r) \<Rightarrow> 'r" where
  "getSupportedTypes hidl_cb = hidl_cb (map fst lights)"

text \<open>Requests used as concrete inputs below.\<close>

definition request :: "32 word \<Rightarrow> Flash \<Rightarrow> 32 word \<Rightarrow> 32 word \<Rightarrow> LightState" where
  "request c m onMs offMs =
     \<lparr>color = c, flashMode = m, flashOnMs = onMs, flashOffMs = offMs, brightnessMode = USER\<rparr>"

section \<open>Bytes of a packed colour\<close>

lemma mask_ff: "(0xff :: 32 word) = mask 8"
  by (simp add: mask_eq_exp_minus_1)

lemma mask_ffffff: "(0x00ffffff :: 32 word) = mask 24"
  by (simp add: mask_eq_exp_minus_1)

lemma red_ignores_alpha:
  "drop_bit 16 ((c :: 32 word) AND 0x00ffffff) AND 0xff = drop_bit 16 c AND 0xff"
  unfolding mask_ff mask_ffffff by (rule bit_word_eqI) (auto simp add: bit_simps)

lemma green_ignores_alpha:
  "drop_bit 8 ((c :: 32 word) AND 0x00ffffff) AND 0xff = drop_bit 8 c AND 0xff"
  unfolding mask_ff mask_ffffff by (rule bit_word_eqI) (auto simp add: bit_simps)

lemma blue_ignores_alpha: "((c :: 32 word) AND 0x00ffffff) AND 0xff = c AND 0xff"
  unfolding mask_ff mask_ffffff by (rule bit_word_eqI) (auto simp add: bit_simps)

lemma unat_low_byte: "unat ((w :: 32 word) AND 0xff) = unat w mod 256"
proof -
  have "unat (take_bit 8 w) = unat w mod 2 ^ 8"
    by (simp only: unsigned_take_bit_eq take_bit_eq_mod [where 'a = nat])
  then have "unat (w AND mask 8) = unat w mod 2 ^ 8"
    by (simp only: take_bit_eq_mask)
  then show ?thesis by (simp only: mask_ff) simp
qed

lemma unat_shift_right: "unat (drop_bit n (w :: 32 word)) = unat w div 2 ^ n"
  by (simp only: unat_drop_bit_eq drop_bit_eq_div [where 'a = nat])

lemma unat_byte_at: "unat (drop_bit n (w :: 32 word) AND 0xff) = unat w div 2 ^ n mod 256"
  by (simp only: unat_low_byte unat_shift_right)

lemma weighted_sum_no_overflow:
  fixes r g b :: "32 word"
  assumes "unat r < 256" and "unat g < 256" and "unat b < 256"
  shows "unat (drop_bit 8 (77 * r + 150 * g + 29 * b))
           = (77 * unat r + 150 * unat g + 29 * unat b) div 256"
proof -
  have "unat (77 * r + 150 * g + 29 * b) = 77 * unat r + 150 * unat g + 29 * unat b"
    using assms by (simp add: unat_word_ariths)
  then show ?thesis by (simp only: unat_shift_right) simp
qed

lemma rgbToBrightness_channels:
  "rgbToBrightness state =
     drop_bit 8 (77 * (drop_bit 16 (color state) AND 0xff)
       + 150 * (drop_bit 8 (color state) AND 0xff) + 29 * (color state AND 0xff))"
  unfolding rgbToBrightness_def Let_def
  by (simp only: red_ignores_alpha green_ignores_alpha blue_ignores_alpha)

lemma rgbToBrightness_unat:
  "unat (rgbToBrightness state) =
     (77 * (unat (color state) div 2 ^ 16 mod 256) + 150 * (unat (color state) div 2 ^ 8 mod 256)
        + 29 * (unat (color state) mod 256)) div 256"
proof -
  define r where "r = drop_bit 16 (color state) AND 0xff"
  define g where "g = drop_bit 8 (color state) AND 0xff"
  define b where "b = color state AND 0xff"
  have r: "unat r = unat (color state) div 2 ^ 16 mod 256"
    unfolding r_def by (simp only: unat_byte_at)
  have g: "unat g = unat (color state) div 2 ^ 8 mod 256"
    unfolding g_def by (simp only: unat_byte_at)
  have b: "unat b = unat (color state) mod 256"
    unfolding b_def by (simp only: unat_low_byte)
  have lt: "unat r < 256" "unat g < 256" "unat b < 256"
    by (simp_all add: r g b)
  have "rgbToBrightness state = drop_bit 8 (77 * r + 150 * g + 29 * b)"
    unfolding r_def g_def b_def by (rule rgbToBrightness_channels)
  then show ?thesis by (simp only: weighted_sum_no_overflow [OF lt] r g b)
qed

lemma rgbToBrightness_le: "unat (rgbToBrightness state) \<le> 255"
proof -
  define r where "r = unat (color state) div 2 ^ 16 mod 256"
  define g where "g = unat (color state) div 2 ^ 8 mod 256"
  define b where "b = unat (color state) mod 256"
  have "r < 256" "g < 256" "b < 256"
    by (simp_all add: r_def g_def b_def)
  then have "77 * r + 150 * g + 29 * b < 256 * 256"
    by linarith
  then have "(77 * r + 150 * g + 29 * b) div 256 < 256"
    by (simp only: less_mult_imp_div_less)
  then have "unat (rgbToBrightness state) < 256"
    by (simp only: rgbToBrightness_unat r_def g_def b_def)
  then show ?thesis by simp
qed

text \<open>
  Claim C3. For every request, the luma \<open>rgbToBrightness\<close> computes from the packed
  colour \<open>0xAARRGGBB\<close> is \<open>(77 * R + 150 * G + 29 * B) >> 8\<close>, where \<open>R\<close>, \<open>G\<close> and \<open>B\<close> are
  the bytes at bits 16-23, 8-15 and 0-7; it lies in \<open>[0, 255]\<close>; the colour
  \<open>0x00FFFFFF\<close> gives 255 and \<open>0x00FF0000\<close> gives 76.
\<close>

theorem rgbToBrightness_luma:
  "unat (rgbToBrightness state) =
     (77 * (unat (color state) div 2 ^ 16 mod 256) + 150 * (unat (color state) div 2 ^ 8 mod 256)
        + 29 * (unat (color state) mod 256)) div 2 ^ 8
   \<and> unat (rgbToBrightness state) \<le> 255
   \<and> rgbToBrightness (state\<lparr>color := 0x00FFFFFF\<rparr>) = 255
   \<and> rgbToBrightness (state\<lparr>color := 0x00FF0000\<rparr>) = 76"
proof -
  have "rgbToBrightness (state\<lparr>color := 0x00FFFFFF\<rparr>) = 255"
    by (simp add: rgbToBrightness_def)
  moreover have "rgbToBrightness (state\<lparr>color := 0x00FF0000\<rparr>) = 76"
    by (simp add: rgbToBrightness_def)
  ultimately show ?thesis
    using rgbToBrightness_unat [of state] rgbToBrightness_le [of state] by simp
qed

section \<open>The backlight handler\<close>

lemma handleBacklight_writes:
  "writes (handleBacklight fs state) = [(LCD_LED @ BRIGHTNESS, NoValue)]"
  by (simp add: handleBacklight_def Let_def)

text \<open>
  Claim C1. The claim has the backlight handler write \<open>luma * deviceMax / 255\<close> to the
  brightness attribute: 128 when \<open>max_brightness\<close> reads 128 and the luma is 255. The
  handler computes that value and puts it in the debug message, but the call on line 97
  hands \<open>set\<close> the path alone. At that input the events of the handler are the message
  "Writing backlight brightness 128 (orig 255)" and a write that carries no value.
\<close>

theorem handleBacklight_writes_no_value:
  "handleBacklight (\<lambda>_. Some 128) (request 0x00FFFFFF NONE 0 0) =
     [DebugLog ''Writing backlight brightness 128 (orig 255)'',
      AttrWrite (LCD_LED @ BRIGHTNESS) NoValue]"
  by (simp add: handleBacklight_def Let_def get_attr_def rgbToBrightness_def request_def
        kDefaultMaxBrightness_def int_div_def word_sless_alt signed_divide_int_def fmt_d_def
        dec_nat.simps digit_char_def)

section \<open>The battery handler\<close>

text \<open>
  Claim C5. For every request, the battery handler writes to the red, the green and the
  blue LED, in this order, first \<open>breath\<close> (0 when the luma is 0, 1 otherwise) and then
  \<open>brightness\<close>, the luma itself: the same two values on the three channels.
\<close>

theorem handleBattery_writes:
  "handleBattery fs state =
     [AttrWrite (RED_LED @ BREATH) (IntVal (if rgbToBrightness state = 0 then 0 else 1)),
      AttrWrite (RED_LED @ BRIGHTNESS) (IntVal (rgbToBrightness state)),
      AttrWrite (GREEN_LED @ BREATH) (IntVal (if rgbToBrightness state = 0 then 0 else 1)),
      AttrWrite (GREEN_LED @ BRIGHTNESS) (IntVal (rgbToBrightness state)),
      AttrWrite (BLUE_LED @ BREATH) (IntVal (if rgbToBrightness state = 0 then 0 else 1)),
      AttrWrite (BLUE_LED @ BRIGHTNESS) (IntVal (rgbToBrightness state))]"
  by (simp add: handleBattery_def Light_rgbToBrightness_def Let_def)

text \<open>
  Claim C10. Two requests whose colours agree on bits 0-23 (they differ in the alpha
  byte at most; the other fields are free) get the same sequence of attribute writes
  from the backlight handler and the same from the battery handler.
\<close>

theorem handlers_ignore_alpha:
  assumes "color s1 AND 0x00ffffff = color s2 AND 0x00ffffff"
  shows "writes (handleBacklight fs s1) = writes (handleBacklight fs s2)
       \<and> writes (handleBattery fs s1) = writes (handleBattery fs s2)"
proof -
  from assms have "rgbToBrightness s1 = rgbToBrightness s2"
    by (simp add: rgbToBrightness_def)
  then show ?thesis
    by (simp add: handleBacklight_def handleBattery_def Light_rgbToBrightness_def Let_def)
qed

text \<open>The same colour \<open>0x336699\<close> under alpha \<open>0x00\<close> and under alpha \<open>0xFF\<close>.\<close>

theorem handlers_ignore_alpha_witness:
  "color (request 0x00336699 NONE 0 0) AND 0x00ffffff
     = color (request 0xFF336699 TIMED 5 7) AND 0x00ffffff
   \<and> writes (handleBacklight (\<lambda>_. Some 128) (request 0x00336699 NONE 0 0))
       = writes (handleBacklight (\<lambda>_. Some 128) (request 0xFF336699 TIMED 5 7))
   \<and> writes (handleBattery (\<lambda>_. Some 128) (request 0x00336699 NONE 0 0))
       = writes (handleBattery (\<lambda>_. Some 128) (request 0xFF336699 TIMED 5 7))"
proof -
  have h: "color (request 0x00336699 NONE 0 0) AND 0x00ffffff
         = color (request 0xFF336699 TIMED 5 7) AND 0x00ffffff"
    by (simp add: request_def)
  from h handlers_ignore_alpha [OF h, of "\<lambda>_. Some 128"] show ?thesis by blast
qed

section \<open>The notification handler\<close>

lemma scaled_opaque_white: "scaledChannels (request 0xFFFFFFFF m onMs offMs) = (255, 255, 255)"
  by (simp add: scaledChannels_def request_def Let_def)

lemma scaled_half_red: "scaledChannels (request 0x80FF0000 m onMs offMs) = (128, 0, 0)"
  by (simp add: scaledChannels_def request_def Let_def)

lemma scaled_transparent: "scaledChannels (request 0x00FFFFFF m onMs offMs) = (0, 0, 0)"
  by (simp add: scaledChannels_def request_def Let_def)

text \<open>
  Claim C6. For every request whose flash mode is not Timed, with \<open>(r, g, b)\<close> the
  channel values after the alpha scaling: the handler first writes breath = 0 and
  brightness = 0 to the three channels; then it writes brightness = 255 to the three
  channels when one of \<open>r\<close>, \<open>g\<close>, \<open>b\<close> is above 0, and brightness = 0 to the three
  channels otherwise. There is no other write, so none to \<open>breath\<close> after the reset.
\<close>

theorem handleNotification_not_timed:
  assumes "flashMode state \<noteq> TIMED" and "scaledChannels state = (r, g, b)"
  shows "handleNotification fs state =
      [AttrWrite (RED_LED @ BREATH) (IntVal 0), AttrWrite (RED_LED @ BRIGHTNESS) (IntVal 0),
       AttrWrite (GREEN_LED @ BREATH) (IntVal 0), AttrWrite (GREEN_LED @ BRIGHTNESS) (IntVal 0),
       AttrWrite (BLUE_LED @ BREATH) (IntVal 0), AttrWrite (BLUE_LED @ BRIGHTNESS) (IntVal 0)]
      @ (if 0 < r \<or> 0 < g \<or> 0 < b
         then [AttrWrite (RED_LED @ BRIGHTNESS) (IntVal 255),
               AttrWrite (GREEN_LED @ BRIGHTNESS) (IntVal 255),
               AttrWrite (BLUE_LED @ BRIGHTNESS) (IntVal 255)]
         else [AttrWrite (RED_LED @ BRIGHTNESS) (IntVal 0),
               AttrWrite (GREEN_LED @ BRIGHTNESS) (IntVal 0),
               AttrWrite (BLUE_LED @ BRIGHTNESS) (IntVal 0)])"
  using assms
  by (simp add: handleNotification_def disableBreathing_def kDefaultMaxBrightness_def)

text \<open>
  A half-dimmed red without flashing (scaled channels 128, 0, 0) switches the three
  channels to 255; a fully transparent white in hardware flash mode (scaled channels
  0, 0, 0) switches them to 0.
\<close>

theorem handleNotification_not_timed_witness:
  "flashMode (request 0x80FF0000 NONE 0 0) \<noteq> TIMED
   \<and> scaledChannels (request 0x80FF0000 NONE 0 0) = (128, 0, 0)
   \<and> handleNotification (\<lambda>_. None) (request 0x80FF0000 NONE 0 0) =
      [AttrWrite (RED_LED @ BREATH) (IntVal 0), AttrWrite (RED_LED @ BRIGHTNESS) (IntVal 0),
       AttrWrite (GREEN_LED @ BREATH) (IntVal 0), AttrWrite (GREEN_LED @ BRIGHTNESS) (IntVal 0),
       AttrWrite (BLUE_LED @ BREATH) (IntVal 0), AttrWrite (BLUE_LED @ BRIGHTNESS) (IntVal 0),
       AttrWrite (RED_LED @ BRIGHTNESS) (IntVal 255),
       AttrWrite (GREEN_LED @ BRIGHTNESS) (IntVal 255),
       AttrWrite (BLUE_LED @ BRIGHTNESS) (IntVal 255)]
   \<and> flashMode (request 0x00FFFFFF HARDWARE 500 500) \<noteq> TIMED
   \<and> scaledChannels (request 0x00FFFFFF HARDWARE 500 500) = (0, 0, 0)
   \<and> handleNotification (\<lambda>_. None) (request 0x00FFFFFF HARDWARE 500 500) =
      [AttrWrite (RED_LED @ BREATH) (IntVal 0), AttrWrite (RED_LED @ BRIGHTNESS) (IntVal 0),
       AttrWrite (GREEN_LED @ BREATH) (IntVal 0), AttrWrite (GREEN_LED @ BRIGHTNESS) (IntVal 0),
       AttrWrite (BLUE_LED @ BREATH) (IntVal 0), AttrWrite (BLUE_LED @ BRIGHTNESS) (IntVal 0),
       AttrWrite (RED_LED @ BRIGHTNESS) (IntVal 0),
       AttrWrite (GREEN_LED @ BRIGHTNESS) (IntVal 0),
       AttrWrite (BLUE_LED @ BRIGHTNESS) (IntVal 0)]"
proof -
  have m1: "flashMode (request 0x80FF0000 NONE 0 0) \<noteq> TIMED"
    by (simp add: request_def)
  have m2: "flashMode (request 0x00FFFFFF HARDWARE 500 500) \<noteq> TIMED"
    by (simp add: request_def)
  show ?thesis
    using m1 m2 scaled_half_red [of NONE 0 0] scaled_transparent [of HARDWARE 500 500]
      handleNotification_not_timed [OF m1 scaled_half_red, of "\<lambda>_. None"]
      handleNotification_not_timed [OF m2 scaled_transparent, of "\<lambda>_. None"]
    by simp
qed

subsection \<open>The breath pattern and its 40-byte buffer\<close>





lemma fmt_d_100000000: "fmt_d 100000000 = ''100000000''"
  by (simp add: fmt_d_def dec_nat.simps digit_char_def)






lemma getBreathPatternValue_100000000:
  "getBreathPatternValue 100000000 100000000 = ''100000000 100000000 100000000 100000000''"
  by (simp add: getBreathPatternValue_def snprintf_def breath_format_def fmt_d_100000000)

section \<open>The service calls\<close>

lemma lights_entries:
  "lights = [(BACKLIGHT, handleBacklight), (BATTERY, handleBattery),
             (NOTIFICATIONS, handleNotification), (ATTENTION, handleNotification)]"
  by (simp add: lights_def std_map_def)

lemma setLight_cases:
  "setLight fs type state =
     (if type = BACKLIGHT then (SUCCESS, [LockAcquire] @ handleBacklight fs state @ [LockRelease])
      else if type = BATTERY then (SUCCESS, [LockAcquire] @ handleBattery fs state @ [LockRelease])
      else if type = NOTIFICATIONS \<or> type = ATTENTION
        then (SUCCESS, [LockAcquire] @ handleNotification fs state @ [LockRelease])
      else (LIGHT_NOT_SUPPORTED, []))"
  by (cases type) (simp_all add: setLight_def lights_entries)

text \<open>
  Claim C2. For every request and every environment, \<open>setLight\<close> returns \<open>SUCCESS\<close> for
  the types Backlight, Battery, Notifications and Attention, and for any other type it
  returns \<open>LIGHT_NOT_SUPPORTED\<close> with no event at all: no attribute write (and no lock).
\<close>

theorem setLight_status:
  "(type \<in> {BACKLIGHT, BATTERY, NOTIFICATIONS, ATTENTION} \<longrightarrow>
      fst (setLight fs type state) = SUCCESS)
   \<and> (type \<notin> {BACKLIGHT, BATTERY, NOTIFICATIONS, ATTENTION} \<longrightarrow>
        setLight fs type state = (LIGHT_NOT_SUPPORTED, [])
        \<and> writes (snd (setLight fs type state)) = [])"
  by (cases type) (simp_all add: setLight_cases)

text \<open>The battery light is supported, the keyboard light is not.\<close>

theorem setLight_status_witness:
  "BATTERY \<in> {BACKLIGHT, BATTERY, NOTIFICATIONS, ATTENTION}
   \<and> fst (setLight (\<lambda>_. None) BATTERY (request 0xFF00FF00 NONE 0 0)) = SUCCESS
   \<and> KEYBOARD \<notin> {BACKLIGHT, BATTERY, NOTIFICATIONS, ATTENTION}
   \<and> setLight (\<lambda>_. None) KEYBOARD (request 0xFF00FF00 NONE 0 0) = (LIGHT_NOT_SUPPORTED, [])
   \<and> writes (snd (setLight (\<lambda>_. None) KEYBOARD (request 0xFF00FF00 NONE 0 0))) = []"
proof -
  have a: "BATTERY \<in> {BACKLIGHT, BATTERY, NOTIFICATIONS, ATTENTION}" by simp
  have b: "KEYBOARD \<notin> {BACKLIGHT, BATTERY, NOTIFICATIONS, ATTENTION}" by simp
  note ok = setLight_status [of BATTERY "\<lambda>_. None" "request 0xFF00FF00 NONE 0 0",
      THEN conjunct1, THEN mp, OF a]
  note no = setLight_status [of KEYBOARD "\<lambda>_. None" "request 0xFF00FF00 NONE 0 0",
      THEN conjunct2, THEN mp, OF b]
  from a b ok no show ?thesis by blast
qed

lemma writes_append: "writes (xs @ ys) = writes xs @ writes ys"
  by (induction xs rule: writes.induct) simp_all

lemma handleBattery_length: "length (writes (handleBattery fs state)) = 6"
  by (simp add: handleBattery_def Let_def)

lemma handleNotification_length: "length (writes (handleNotification fs state)) \<le> 15"
  by (simp add: handleNotification_def disableBreathing_def Let_def writes_append
        split: prod.split)

text \<open>
  Claim C7, as amended. For every light type, request and environment, one call of
  \<open>setLight\<close> performs at most 15 attribute writes.
\<close>

theorem setLight_at_most_15_writes: "length (writes (snd (setLight fs type state))) \<le> 15"
  using handleNotification_length [of fs state]
  by (simp add: setLight_cases writes_append handleBacklight_writes handleBattery_length)

text \<open>
  The bound of 7 fails for a timed notification: an opaque white flashing 500 ms on and
  off takes 6 writes for the reset and 9 for the three channels.
\<close>

theorem setLight_notification_15_writes:
  "\<not> length (writes (snd (setLight (\<lambda>_. None) NOTIFICATIONS
        (request 0xFFFFFFFF TIMED 500 500)))) \<le> 7"
  by (simp add: setLight_cases writes_append handleNotification_def scaled_opaque_white
        disableBreathing_def Let_def) (simp add: request_def word_sless_alt)

text \<open>That call writes to nine different attributes, so 7 does not bound those either.\<close>

lemma setLight_notification_9_attributes:
  "length (remdups (map fst (writes (snd (setLight (\<lambda>_. None) NOTIFICATIONS
        (request 0xFFFFFFFF TIMED 500 500)))))) = 9"
  by code_simp

text \<open>
  Claim C8. \<open>getSupportedTypes\<close> hands its callback the list Backlight, Battery,
  Notifications, Attention, whose elements are exactly the keys of the dispatch table
  \<open>lights\<close>. The list is a function of the table alone: neither call changes the table
  (\<open>setLight\<close> only looks a key up), and \<open>getSupportedTypes\<close> performs no event.
\<close>

theorem getSupportedTypes_keys:
  "getSupportedTypes hidl_cb = hidl_cb [BACKLIGHT, BATTERY, NOTIFICATIONS, ATTENTION]
   \<and> set [BACKLIGHT, BATTERY, NOTIFICATIONS, ATTENTION] = {t. map_find lights t \<noteq> None}"
proof
  show "getSupportedTypes hidl_cb = hidl_cb [BACKLIGHT, BATTERY, NOTIFICATIONS, ATTENTION]"
    by (simp add: getSupportedTypes_def lights_entries)
  have "map_find lights t \<noteq> None \<longleftrightarrow> t \<in> set [BACKLIGHT, BATTERY, NOTIFICATIONS, ATTENTION]"
    for t
    by (cases t) (simp_all add: lights_entries)
  then show "set [BACKLIGHT, BATTERY, NOTIFICATIONS, ATTENTION] = {t. map_find lights t \<noteq> None}"
    by blast
qed

end
